theory Spec2Isabelle
  imports Main "HOL-Library.Word" "HOL-Library.AList"
begin

section \<open>statdir: a file based stats collector\<close>

text \<open>
  A shallow embedding of \<^verbatim>\<open>statdir.go\<close>. The collector owns a table of named
  64-bit counters; its loop receives update requests one at a time, applies each to the
  counter in memory and rewrites the counter's file.

  What the Go code takes from its environment is made explicit:
  \<^item> the file system is a record that is passed through every operation;
  \<^item> the two readings of \<^verbatim>\<open>time.Now()\<close>, the receipt of the readiness signal and
    the requests that arrive on the channels are given by a \<open>schedule\<close>;
  \<^item> a nil pointer dereference is a value of type \<open>panic\<close>.
\<close>

subsection \<open>Library functions used by the collector\<close>

type_synonym int64 = "64 word"

text \<open>
  \<^verbatim>\<open>strconv.FormatInt(val, 10)\<close>: the decimal digits of a signed integer, with a
  leading minus sign for a negative one.
\<close>

function decimal :: "nat \<Rightarrow> string" where
  "decimal n = (if n < 10 then [''0123456789'' ! n]
                else decimal (n div 10) @ [''0123456789'' ! (n mod 10)])"
  by pat_completeness auto
termination
  by (relation "measure (\<lambda>n. n)") auto

declare decimal.simps [simp del]

definition FormatInt :: "int64 \<Rightarrow> string" where
  "FormatInt v = (if sint v < 0 then CHR ''-'' # decimal (nat (- sint v))
                  else decimal (nat (sint v)))"

text \<open>
  \<^verbatim>\<open>strings.ToUpper\<close> on the ASCII letters; every other byte is kept. The general
  results below never unfold this definition, so they hold for any upper-casing function.
\<close>

definition upper_byte :: "char \<Rightarrow> char" where
  "upper_byte ch =
     (case map_of (zip ''abcdefghijklmnopqrstuvwxyz'' ''ABCDEFGHIJKLMNOPQRSTUVWXYZ'') ch of
        Some up \<Rightarrow> up
      | None \<Rightarrow> ch)"

definition ToUpper :: "string \<Rightarrow> string" where
  "ToUpper s = map upper_byte s"

text \<open>
  \<^verbatim>\<open>path.Join\<close> of a directory and one element: empty elements are skipped and the
  rest are joined with a slash. The lexical clean-up that the library applies to the result
  (\<^verbatim>\<open>.\<close>, \<^verbatim>\<open>..\<close>, repeated slashes) is left out.
\<close>

definition Join :: "string \<Rightarrow> string \<Rightarrow> string" where
  "Join dir elem = (if dir = [] then elem
                    else if elem = [] then dir
                    else dir @ CHR ''/'' # elem)"

text \<open>
  \<^verbatim>\<open>time.Time\<close>, as the fields that the RFC3339 layout prints; \<open>t_offset\<close> is the
  zone offset in minutes east of UTC. The zero value is January 1, year 1, 00:00:00 UTC.
\<close>

record time =
  t_year :: nat
  t_month :: nat
  t_day :: nat
  t_hour :: nat
  t_minute :: nat
  t_second :: nat
  t_offset :: int

definition zero_time :: time where
  "zero_time = \<lparr>t_year = 1, t_month = 1, t_day = 1, t_hour = 0, t_minute = 0,
                 t_second = 0, t_offset = 0\<rparr>"

definition pad :: "nat \<Rightarrow> nat \<Rightarrow> string" where
  "pad w n = replicate (w - length (decimal n)) CHR ''0'' @ decimal n"

definition zone :: "int \<Rightarrow> string" where
  "zone off = (if off = 0 then ''Z''
               else (if off < 0 then CHR ''-'' else CHR ''+'')
                    # pad 2 (nat \<bar>off\<bar> div 60) @ CHR '':'' # pad 2 (nat \<bar>off\<bar> mod 60))"

text \<open>\<^verbatim>\<open>t.Format(time.RFC3339)\<close>, layout \<^verbatim>\<open>2006-01-02T15:04:05Z07:00\<close>.\<close>

definition RFC3339 :: "time \<Rightarrow> string" where
  "RFC3339 t = pad 4 (t_year t) @ CHR ''-'' # pad 2 (t_month t) @ CHR ''-'' # pad 2 (t_day t)
               @ CHR ''T'' # pad 2 (t_hour t) @ CHR '':'' # pad 2 (t_minute t)
               @ CHR '':'' # pad 2 (t_second t) @ zone (t_offset t)"

subsection \<open>The file system\<close>

text \<open>
  \<open>files\<close> maps the path of a regular file to its content and \<open>dirs\<close> holds the
  directories. \<open>faulty\<close> is the set of paths on which the operating system refuses to
  create or write (permissions, a full disk, \<dots>). \<open>writes\<close> is a history of the calls of
  \<^verbatim>\<open>WriteFile\<close>, oldest first; the program cannot read it.
\<close>

datatype fs_error = ENOTDIR | EACCES

record filesystem =
  files :: "string \<rightharpoonup> string"
  dirs :: "string set"
  faulty :: "string set"
  writes :: "(string \<times> string) list"

text \<open>\<^verbatim>\<open>os.MkdirAll(path, 0755)\<close>: fails on a regular file and on a faulty path.\<close>

definition MkdirAll :: "filesystem \<Rightarrow> string \<Rightarrow> filesystem \<times> fs_error option" where
  "MkdirAll fs p = (if files fs p \<noteq> None then (fs, Some ENOTDIR)
                    else if p \<in> faulty fs then (fs, Some EACCES)
                    else (fs\<lparr>dirs := insert p (dirs fs)\<rparr>, None))"

text \<open>
  \<^verbatim>\<open>ioutil.WriteFile(filename, data, 0644)\<close>: creates or truncates the file and
  writes all of \<open>data\<close>; on a faulty path the file is left as it was.
\<close>

definition WriteFile :: "filesystem \<Rightarrow> string \<Rightarrow> string \<Rightarrow> filesystem \<times> fs_error option" where
  "WriteFile fs p data =
     (let fs' = fs\<lparr>writes := writes fs @ [(p, data)]\<rparr>
      in if p \<in> faulty fs then (fs', Some EACCES)
         else (fs'\<lparr>files := (files fs)(p \<mapsto> data)\<rparr>, None))"

subsection \<open>The collector\<close>

text \<open>
  An update request. \<open>kind\<close> is the byte \<^verbatim>\<open>'i'\<close> (increment) or \<^verbatim>\<open>'s'\<close> (set);
  \<open>op_value\<close> is the field \<^verbatim>\<open>value\<close> of the source.
\<close>

record op =
  kind :: char
  name :: string
  op_value :: int64

text \<open>
  \<^verbatim>\<open>counters map[string]*int64\<close> is an association list with one entry per key:
  every key points to a cell of its own, so the cell's content stands for the pointer. The
  channels are not fields of the model: what is sent on them is an \<open>event\<close>.
\<close>

record Collector =
  path :: string
  startedAt :: time
  finishedAt :: time
  counters :: "(string \<times> int64) list"

datatype event = Update op | Quit

definition NewCollector :: "string \<Rightarrow> Collector" where
  "NewCollector p = \<lparr>path = p, startedAt = zero_time, finishedAt = zero_time, counters = []\<rparr>"

definition AddCounter :: "Collector \<Rightarrow> string \<Rightarrow> Collector" where
  "AddCounter self nm =
     (if map_of (counters self) nm = None
      then self\<lparr>counters := counters self @ [(nm, 0)]\<rparr>
      else self)"

definition Path :: "Collector \<Rightarrow> string" where
  "Path self = path self"

definition StartedAt :: "Collector \<Rightarrow> time" where
  "StartedAt self = startedAt self"

definition FinishedAt :: "Collector \<Rightarrow> time" where
  "FinishedAt self = finishedAt self"

text \<open>
  \<^verbatim>\<open>ValueOf\<close> returns the value and an error; the error is the message built by
  \<^verbatim>\<open>fmt.Errorf("counter %s: doesn't exist", name)\<close>.
\<close>

definition ValueOf :: "Collector \<Rightarrow> string \<Rightarrow> int64 \<times> string option" where
  "ValueOf self nm =
     (case map_of (counters self) nm of
        Some v \<Rightarrow> (v, None)
      | None \<Rightarrow> (0, Some (''counter '' @ nm @ '': doesn't exist'')))"

text \<open>What \<^verbatim>\<open>Inc\<close>, \<^verbatim>\<open>Set\<close> and \<^verbatim>\<open>Finish\<close> send to the loop.\<close>

definition Inc :: "string \<Rightarrow> int64 \<Rightarrow> event" where
  "Inc nm change = Update \<lparr>kind = CHR ''i'', name = nm, op_value = change\<rparr>"

definition Set :: "string \<Rightarrow> int64 \<Rightarrow> event" where
  "Set nm v = Update \<lparr>kind = CHR ''s'', name = nm, op_value = v\<rparr>"

definition Finish :: event where
  "Finish = Quit"

subsection \<open>The collection loop\<close>

text \<open>
  The table \<^verbatim>\<open>fC\<close> of file names: one entry per registered counter, keyed by the
  upper-cased name.
\<close>

fun file_names :: "string \<Rightarrow> (string \<times> int64) list \<Rightarrow> (string \<rightharpoonup> string) \<Rightarrow> (string \<rightharpoonup> string)" where
  "file_names p [] fC = fC"
| "file_names p ((nm, _) # cs) fC =
     (let nm' = ToUpper nm in file_names p cs (fC(nm' \<mapsto> Join p nm')))"

datatype panic = NilPointerDereference

text \<open>
  One received request. The file name is looked up in \<open>fC\<close> under the request's name; the
  counter is looked up in \<open>counters\<close> under the same name, and a missing entry is a nil
  pointer handed to \<^verbatim>\<open>atomic.AddInt64\<close> or \<^verbatim>\<open>atomic.StoreInt64\<close>. A kind other than
  \<^verbatim>\<open>'i'\<close> and \<^verbatim>\<open>'s'\<close> leaves \<^verbatim>\<open>val\<close> at zero. The result of \<^verbatim>\<open>WriteFile\<close> is
  dropped.
\<close>

definition update :: "(string \<rightharpoonup> string) \<Rightarrow> op \<Rightarrow> filesystem \<times> Collector
    \<Rightarrow> panic + filesystem \<times> Collector" where
  "update fC u st =
     (case st of (fs, self) \<Rightarrow>
       (case fC (name u) of
          None \<Rightarrow> Inr (fs, self)
        | Some fname \<Rightarrow>
            if kind u = CHR ''i'' then
              (case map_of (counters self) (name u) of
                 None \<Rightarrow> Inl NilPointerDereference
               | Some x \<Rightarrow>
                   let val = x + op_value u
                   in Inr (fst (WriteFile fs fname (FormatInt val)),
                           self\<lparr>counters := AList.update (name u) val (counters self)\<rparr>))
            else if kind u = CHR ''s'' then
              (case map_of (counters self) (name u) of
                 None \<Rightarrow> Inl NilPointerDereference
               | Some x \<Rightarrow>
                   let val = op_value u
                   in Inr (fst (WriteFile fs fname (FormatInt val)),
                           self\<lparr>counters := AList.update (name u) (op_value u) (counters self)\<rparr>))
            else Inr (fst (WriteFile fs fname (FormatInt 0)), self)))"

text \<open>
  How far a call of \<^verbatim>\<open>Collect\<close> has come: it has returned (with or without an error),
  it has panicked, or it is blocked (on the readiness signal, or in \<^verbatim>\<open>select\<close> with
  no request left to receive).
\<close>

datatype outcome = Returned "fs_error option" | Panicked panic | Blocked

text \<open>The \<^verbatim>\<open>for { select { ... } }\<close> loop over the requests that arrive.\<close>

fun loop :: "(string \<rightharpoonup> string) \<Rightarrow> event list \<Rightarrow> filesystem \<times> Collector
    \<Rightarrow> outcome \<times> filesystem \<times> Collector" where
  "loop fC [] st = (Blocked, st)"
| "loop fC (Quit # es) st = (Returned None, st)"
| "loop fC (Update u # es) st =
     (case update fC u st of
        Inl pn \<Rightarrow> (Panicked pn, st)
      | Inr st' \<Rightarrow> loop fC es st')"

text \<open>
  The environment of one call of \<^verbatim>\<open>Collect\<close>: the two values of \<^verbatim>\<open>time.Now()\<close>,
  whether somebody receives from \<^verbatim>\<open>Ready\<close>, and the requests in the order in which the
  loop receives them.
\<close>

record schedule =
  now_start :: time
  now_finish :: time
  ready_received :: bool
  events :: "event list"

text \<open>The deferred function: it runs when \<^verbatim>\<open>Collect\<close> returns or panics.\<close>

definition finish :: "string \<Rightarrow> time \<Rightarrow> filesystem \<times> Collector \<Rightarrow> filesystem \<times> Collector" where
  "finish fF t st =
     (case st of (fs, self) \<Rightarrow>
        (fst (WriteFile fs fF (RFC3339 t)), self\<lparr>finishedAt := t\<rparr>))"

text \<open>
  \<^verbatim>\<open>Collect\<close>, written \<open>Collect'\<close> because HOL's set comprehension has the name.
  A failure of \<^verbatim>\<open>MkdirAll\<close> returns before the deferred function is registered. The
  send on \<^verbatim>\<open>ready\<close> blocks until somebody receives. When the loop is left, by
  \<^verbatim>\<open>return\<close> or by a panic, the deferred function runs.
\<close>

definition Collect' :: "schedule \<Rightarrow> filesystem \<times> Collector \<Rightarrow> outcome \<times> filesystem \<times> Collector" where
  "Collect' sch st =
     (case st of (fs, self) \<Rightarrow>
       (case MkdirAll fs (path self) of
          (fs1, Some err) \<Rightarrow> (Returned (Some err), fs1, self)
        | (fs1, None) \<Rightarrow>
            let fS = Join (path self) ''STARTED'';
                fF = Join (path self) ''FINISHED'';
                fC = file_names (path self) (counters self) Map.empty;
                self1 = self\<lparr>startedAt := now_start sch\<rparr>;
                fs2 = fst (WriteFile fs1 fS (RFC3339 (startedAt self1)))
            in if \<not> ready_received sch then (Blocked, fs2, self1)
               else (case loop fC (events sch) (fs2, self1) of
                       (Blocked, st') \<Rightarrow> (Blocked, st')
                     | (out, st') \<Rightarrow> (out, finish fF (now_finish sch) st'))))"

text \<open>An empty directory tree on which nothing fails.\<close>

definition empty_fs :: filesystem where
  "empty_fs = \<lparr>files = Map.empty, dirs = {}, faulty = {}, writes = []\<rparr>"

subsection \<open>Concurrent producers\<close>

text \<open>
  The request channel is unbuffered, so the loop receives the requests of several producers
  one at a time. \<open>interleaving pss es\<close> says that \<open>es\<close> is such an order of receipt:
  it takes every request of every producer's sequence in \<open>pss\<close> exactly once and keeps
  the order within each sequence.
\<close>

fun interleaving :: "'a list list \<Rightarrow> 'a list \<Rightarrow> bool" where
  "interleaving pss [] = list_all (\<lambda>ps. ps = []) pss"
| "interleaving pss (x # es) =
     list_ex (\<lambda>i. case pss ! i of
                    [] \<Rightarrow> False
                  | y # ps \<Rightarrow> y = x \<and> interleaving (pss[i := ps]) es) [0..<length pss]"

subsection \<open>Example inputs\<close>

text \<open>Two clock readings, a schedule on which the readiness signal is received, and a
  file system on which one path is faulty.\<close>

definition t1 :: time where
  "t1 = \<lparr>t_year = 2014, t_month = 3, t_day = 9, t_hour = 13, t_minute = 5,
          t_second = 59, t_offset = 60\<rparr>"

definition t2 :: time where
  "t2 = \<lparr>t_year = 2014, t_month = 3, t_day = 9, t_hour = 13, t_minute = 6,
          t_second = 1, t_offset = 60\<rparr>"

definition run :: "event list \<Rightarrow> schedule" where
  "run es = \<lparr>now_start = t1, now_finish = t2, ready_received = True, events = es\<rparr>"

definition faulty_fs :: "string \<Rightarrow> filesystem" where
  "faulty_fs p = \<lparr>files = Map.empty, dirs = {}, faulty = {p}, writes = []\<rparr>"

section \<open>Properties\<close>

subsection \<open>Auxiliary facts\<close>

text \<open>The table of file names: the keys are the upper-cased registered names.\<close>

lemma file_names_lookup:
  "file_names p cs fC k =
     (if k \<in> ToUpper ` fst ` set cs then Some (Join p k) else fC k)"
proof (induction cs arbitrary: fC)
  case Nil
  show ?case by simp
next
  case (Cons c cs)
  obtain nm v where c: "c = (nm, v)" by (cases c)
  show ?case
    unfolding c by (simp add: Let_def Cons.IH)
qed

lemma file_names_keys:
  "map fst cs = map fst cs' \<Longrightarrow> file_names p cs fC = file_names p cs' fC"
proof (rule ext)
  fix k
  assume "map fst cs = map fst cs'"
  then have "set (map fst cs) = set (map fst cs')" by simp
  then have "fst ` set cs = fst ` set cs'" by simp
  then show "file_names p cs fC k = file_names p cs' fC k"
    by (simp add: file_names_lookup)
qed

lemma keys_AddCounter:
  "fst ` set (counters (AddCounter self nm)) = insert nm (fst ` set (counters self))"
  by (auto simp: AddCounter_def map_of_eq_None_iff)

lemma map_of_AddCounter:
  "map_of (counters (AddCounter self nm)) k =
     (if k = nm \<and> map_of (counters self) nm = None then Some 0 else map_of (counters self) k)"
  by (auto simp: AddCounter_def map_add_def split: option.splits)

lemma fields_AddCounter [simp]:
  "path (AddCounter self nm) = path self"
  "startedAt (AddCounter self nm) = startedAt self"
  "finishedAt (AddCounter self nm) = finishedAt self"
  by (simp_all add: AddCounter_def)

lemma fields_registered [simp]:
  "path (foldl AddCounter self nms) = path self"
  "startedAt (foldl AddCounter self nms) = startedAt self"
  "finishedAt (foldl AddCounter self nms) = finishedAt self"
  by (induction nms arbitrary: self) simp_all

lemma keys_registered:
  "fst ` set (counters (foldl AddCounter self nms)) = fst ` set (counters self) \<union> set nms"
  by (induction nms arbitrary: self) (auto simp: keys_AddCounter)

lemma values_registered:
  "map_of (counters (foldl AddCounter self nms)) k =
     (if k \<in> set nms \<and> map_of (counters self) k = None then Some 0 else map_of (counters self) k)"
  by (induction nms arbitrary: self) (auto simp: map_of_AddCounter)

lemma keys_update_present:
  "map_of al k = Some x \<Longrightarrow> map fst (AList.update k v al) = map fst al"
  by (induction al) (auto split: if_splits)


text \<open>A request whose name is not a key of the table is discarded.\<close>

lemma update_discards:
  "fC (name u) = None \<Longrightarrow> update fC u st = Inr st"
  by (cases st) (simp add: update_def)


lemma update_Inr_fields:
  assumes "update fC u (fs, self) = Inr (fs', self')"
  shows "path self' = path self" "startedAt self' = startedAt self"
    "finishedAt self' = finishedAt self"
    "map fst (counters self') = map fst (counters self)"
    "faulty fs' = faulty fs" "dirs fs' = dirs fs"
  using assms
  by (auto simp: update_def WriteFile_def Let_def keys_update_present
      split: option.splits if_splits)

text \<open>The loop changes neither the path, the times, the set of counters nor the faulty paths.\<close>

lemma loop_fields:
  assumes "loop fC es (fs, self) = (out, fs', self')"
  shows "path self' = path self \<and> startedAt self' = startedAt self
    \<and> finishedAt self' = finishedAt self
    \<and> map fst (counters self') = map fst (counters self)
    \<and> faulty fs' = faulty fs \<and> dirs fs' = dirs fs"
  using assms
proof (induction fC es "(fs, self)" arbitrary: fs self rule: loop.induct)
  case (3 fC u es)
  show ?case
  proof (cases "update fC u (fs, self)")
    case (Inl pn)
    with 3 show ?thesis by simp
  next
    case (Inr st')
    obtain fs1 self1 where st': "st' = (fs1, self1)" by (cases st')
    from 3(1)[of fs1 self1] 3(2) Inr st' update_Inr_fields[of fC u fs self fs1 self1]
    show ?thesis by simp
  qed
qed simp_all




lemma Collect_fields:
  assumes "Collect' sch (fs, self) = (out, fs', self')"
  shows "path self' = path self"
    and "map fst (counters self') = map fst (counters self)"
    and "out = Blocked \<Longrightarrow> finishedAt self' = finishedAt self"
    and "snd (MkdirAll fs (path self)) \<noteq> None \<Longrightarrow> startedAt self' = startedAt self"
    and "snd (MkdirAll fs (path self)) = None \<Longrightarrow> startedAt self' = now_start sch"
    and "snd (MkdirAll fs (path self)) = None \<Longrightarrow> out \<noteq> Blocked \<Longrightarrow> finishedAt self' = now_finish sch"
  using assms
  by (auto simp: Collect'_def MkdirAll_def Let_def finish_def
      split: if_splits prod.splits outcome.splits dest!: loop_fields)

lemma keys_Collect:
  assumes "Collect' sch (fs, self) = (out, fs', self')"
  shows "fst ` set (counters self') = fst ` set (counters self)"
proof -
  have "set (map fst (counters self')) = set (map fst (counters self))"
    using Collect_fields(2) [OF assms] by simp
  then show ?thesis by simp
qed

subsection \<open>Evaluation on the example inputs\<close>

lemma decimal_digit: "n < 10 \<Longrightarrow> decimal n = [''0123456789'' ! n]"
  by (simp add: decimal.simps)

lemma decimal_more:
  "\<not> n < 10 \<Longrightarrow> decimal n = decimal (n div 10) @ [''0123456789'' ! (n mod 10)]"
  by (subst decimal.simps) simp

lemma FormatInt_examples:
  "FormatInt 0 = ''0''" "FormatInt 1 = ''1''" "FormatInt 2 = ''2''" "FormatInt 3 = ''3''"
  "FormatInt 4 = ''4''" "FormatInt 5 = ''5''" "FormatInt 10 = ''10''" "FormatInt (- 5) = ''-5''"
  by (simp_all add: FormatInt_def decimal_digit decimal_more)

lemma ToUpper_examples:
  "ToUpper ''foo'' = ''FOO''" "ToUpper ''FOO'' = ''FOO''" "ToUpper ''STARTED'' = ''STARTED''"
  by (simp_all add: ToUpper_def upper_byte_def)


lemmas run_simps = Collect'_def MkdirAll_def WriteFile_def update_def finish_def run_def
  empty_fs_def faulty_fs_def NewCollector_def AddCounter_def Inc_def Set_def Finish_def
  Join_def Let_def ToUpper_examples FormatInt_examples


lemma run_test_1:
  "Collect' (run [Inc ''BAR'' 10, Inc ''FOO'' 10])
     (empty_fs, foldl AddCounter (NewCollector ''tmp'') [''FOO''])
   = (Blocked,
      \<lparr>files = [''tmp/STARTED'' \<mapsto> RFC3339 t1, ''tmp/FOO'' \<mapsto> ''10''],
       dirs = {''tmp''}, faulty = {},
       writes = [(''tmp/STARTED'', RFC3339 t1), (''tmp/FOO'', ''10'')]\<rparr>,
      \<lparr>path = ''tmp'', startedAt = t1, finishedAt = zero_time, counters = [(''FOO'', 10)]\<rparr>)"
  by (simp add: run_simps)

lemma run_test_2:
  "Collect' (run [Inc ''BAR'' 10, Inc ''FOO'' 10, Inc ''FOO'' (- 5), Finish])
     (empty_fs, foldl AddCounter (NewCollector ''tmp'') [''FOO''])
   = (Returned None,
      \<lparr>files = [''tmp/STARTED'' \<mapsto> RFC3339 t1, ''tmp/FOO'' \<mapsto> ''5'',
                ''tmp/FINISHED'' \<mapsto> RFC3339 t2],
       dirs = {''tmp''}, faulty = {},
       writes = [(''tmp/STARTED'', RFC3339 t1), (''tmp/FOO'', ''10''), (''tmp/FOO'', ''5''),
                 (''tmp/FINISHED'', RFC3339 t2)]\<rparr>,
      \<lparr>path = ''tmp'', startedAt = t1, finishedAt = t2, counters = [(''FOO'', 5)]\<rparr>)"
  by (simp add: run_simps)

subsection \<open>Registration\<close>

text \<open>
  Claim C8. \<^verbatim>\<open>AddCounter\<close> is idempotent: a name that is absent gets a counter with
  value zero, a name that is present keeps its counter and its value (the collector is
  returned as it was), no other counter is touched, and registering a name twice is the same
  as registering it once.
\<close>

theorem AddCounter_idempotent:
  "(map_of (counters self) nm = None \<longrightarrow> map_of (counters (AddCounter self nm)) nm = Some 0)
   \<and> (\<forall>v. map_of (counters self) nm = Some v \<longrightarrow> AddCounter self nm = self)
   \<and> (\<forall>k. k \<noteq> nm \<longrightarrow> map_of (counters (AddCounter self nm)) k = map_of (counters self) k)
   \<and> AddCounter (AddCounter self nm) nm = AddCounter self nm"
  by (auto simp: map_of_AddCounter) (auto simp: AddCounter_def)

theorem AddCounter_idempotent_witness:
  "map_of (counters (NewCollector ''tmp'')) ''FOO'' = None
   \<and> map_of (counters (AddCounter (NewCollector ''tmp'') ''FOO'')) ''FOO'' = Some 0
   \<and> map_of (counters (NewCollector ''tmp''\<lparr>counters := [(''FOO'', 5)]\<rparr>)) ''FOO'' = Some 5
   \<and> AddCounter (NewCollector ''tmp''\<lparr>counters := [(''FOO'', 5)]\<rparr>) ''FOO''
       = NewCollector ''tmp''\<lparr>counters := [(''FOO'', 5)]\<rparr>
   \<and> map_of (counters (AddCounter (NewCollector ''tmp''\<lparr>counters := [(''FOO'', 5)]\<rparr>) ''BAR'')) ''FOO''
       = Some 5"
  using AddCounter_idempotent [of "NewCollector ''tmp''" "''FOO''"]
    AddCounter_idempotent [of "NewCollector ''tmp''\<lparr>counters := [(''FOO'', 5)]\<rparr>" "''FOO''"]
    AddCounter_idempotent [of "NewCollector ''tmp''\<lparr>counters := [(''FOO'', 5)]\<rparr>" "''BAR''"]
  by (simp add: NewCollector_def)

subsection \<open>Construction and accessors\<close>

text \<open>
  Claim C10. \<^verbatim>\<open>NewCollector\<close> is a function of the path alone: it neither takes
  nor returns a file system. \<^verbatim>\<open>Path\<close> returns exactly the path given at construction,
  also after registrations and after a call of \<^verbatim>\<open>Collect\<close>; \<^verbatim>\<open>StartedAt\<close> is the
  zero time until \<^verbatim>\<open>Collect\<close> has created the directory and is then the recorded start
  time; \<^verbatim>\<open>FinishedAt\<close> is the zero time as long as \<^verbatim>\<open>Collect\<close> has not left its
  loop and is then the recorded finish time.
\<close>

theorem accessors_read_stored_state:
  assumes "self = foldl AddCounter (NewCollector P) nms"
    and "Collect' sch (fs, self) = (out, fs', self')"
  shows "Path (NewCollector P) = P \<and> StartedAt (NewCollector P) = zero_time
    \<and> FinishedAt (NewCollector P) = zero_time \<and> counters (NewCollector P) = []
    \<and> Path self = P \<and> StartedAt self = zero_time \<and> FinishedAt self = zero_time
    \<and> Path self' = P
    \<and> (snd (MkdirAll fs P) \<noteq> None \<longrightarrow> StartedAt self' = zero_time)
    \<and> (snd (MkdirAll fs P) = None \<longrightarrow> StartedAt self' = now_start sch)
    \<and> (out = Blocked \<longrightarrow> FinishedAt self' = zero_time)
    \<and> (snd (MkdirAll fs P) = None \<and> out \<noteq> Blocked \<longrightarrow> FinishedAt self' = now_finish sch)"
proof -
  have p: "path self = P" and s: "startedAt self = zero_time" and f: "finishedAt self = zero_time"
    by (simp_all add: assms(1) NewCollector_def)
  show ?thesis
    using Collect_fields [OF assms(2)] p s f
    by (simp add: Path_def StartedAt_def FinishedAt_def NewCollector_def)
qed

theorem accessors_read_stored_state_witness:
  "Path (NewCollector ''tmp'') = ''tmp''
   \<and> StartedAt (foldl AddCounter (NewCollector ''tmp'') [''FOO'']) = zero_time
   \<and> snd (MkdirAll empty_fs ''tmp'') = None
   \<and> Path \<lparr>path = ''tmp'', startedAt = t1, finishedAt = zero_time, counters = [(''FOO'', 10)]\<rparr>
       = ''tmp''
   \<and> StartedAt \<lparr>path = ''tmp'', startedAt = t1, finishedAt = zero_time, counters = [(''FOO'', 10)]\<rparr>
       = t1
   \<and> FinishedAt \<lparr>path = ''tmp'', startedAt = t1, finishedAt = zero_time, counters = [(''FOO'', 10)]\<rparr>
       = zero_time"
proof -
  have m: "snd (MkdirAll empty_fs ''tmp'') = None"
    by (simp add: MkdirAll_def empty_fs_def)
  show ?thesis
    using accessors_read_stored_state [OF refl run_test_1] m
    by (simp add: run_def)
qed

subsection \<open>Reading a counter\<close>

text \<open>
  Claim C5. For a collector built by \<^verbatim>\<open>NewCollector\<close> and registrations of the names
  \<open>nms\<close>: \<^verbatim>\<open>ValueOf\<close> of a registered name returns 0 and no error before any
  update, and after a call of \<^verbatim>\<open>Collect\<close> it returns the content of the counter and
  no error; \<^verbatim>\<open>ValueOf\<close> of a name that was never registered returns 0 together with
  the error "counter \<dots>: doesn't exist", before and after \<^verbatim>\<open>Collect\<close>.
\<close>

theorem ValueOf_registered:
  assumes "self = foldl AddCounter (NewCollector P) nms"
    and "Collect' sch (fs, self) = (out, fs', self')"
  shows "(nm \<in> set nms \<longrightarrow>
            ValueOf self nm = (0, None)
          \<and> (\<exists>v. map_of (counters self') nm = Some v \<and> ValueOf self' nm = (v, None)))
       \<and> (nm \<notin> set nms \<longrightarrow>
            ValueOf self nm = (0, Some (''counter '' @ nm @ '': doesn't exist''))
          \<and> ValueOf self' nm = (0, Some (''counter '' @ nm @ '': doesn't exist'')))"
proof -
  have k: "fst ` set (counters self) = set nms"
    by (simp add: assms(1) keys_registered NewCollector_def)
  have k': "fst ` set (counters self') = set nms"
    using keys_Collect [OF assms(2)] k by simp
  have v: "map_of (counters self) nm = (if nm \<in> set nms then Some 0 else None)"
    by (simp add: assms(1) values_registered NewCollector_def)
  have v': "map_of (counters self') nm = None \<longleftrightarrow> nm \<notin> set nms"
    using k' by (simp add: map_of_eq_None_iff)
  show ?thesis
    using v v' by (auto simp: ValueOf_def split: option.splits)
qed

theorem ValueOf_registered_witness:
  "ValueOf (foldl AddCounter (NewCollector ''tmp'') [''FOO'']) ''FOO'' = (0, None)
   \<and> ValueOf \<lparr>path = ''tmp'', startedAt = t1, finishedAt = t2, counters = [(''FOO'', 5)]\<rparr> ''FOO''
       = (5, None)
   \<and> ValueOf (foldl AddCounter (NewCollector ''tmp'') [''FOO'']) ''BAR''
       = (0, Some ''counter BAR: doesn't exist'')
   \<and> ValueOf \<lparr>path = ''tmp'', startedAt = t1, finishedAt = t2, counters = [(''FOO'', 5)]\<rparr> ''BAR''
       = (0, Some ''counter BAR: doesn't exist'')"
  using ValueOf_registered [OF refl run_test_2, of "''FOO''"]
    ValueOf_registered [OF refl run_test_2, of "''BAR''"]
  by simp

subsection \<open>Failure to create the directory\<close>

text \<open>
  Claim C6. If \<^verbatim>\<open>MkdirAll\<close> fails, \<^verbatim>\<open>Collect\<close> returns that error at once: the
  loop is not entered, the collector is returned as it was (so its start and finish times
  are what they were, the zero time for a new collector), no file has changed and
  \<^verbatim>\<open>WriteFile\<close> has not been called (no \<^verbatim>\<open>STARTED\<close>, \<^verbatim>\<open>FINISHED\<close> or counter
  file is written).
\<close>

theorem Collect_directory_failure:
  assumes "snd (MkdirAll fs (path self)) = Some err"
  shows "Collect' sch (fs, self) = (Returned (Some err), fst (MkdirAll fs (path self)), self)
       \<and> files (fst (MkdirAll fs (path self))) = files fs
       \<and> writes (fst (MkdirAll fs (path self))) = writes fs"
  using assms by (auto simp: Collect'_def MkdirAll_def split: if_splits)

theorem Collect_directory_failure_witness:
  "snd (MkdirAll (faulty_fs ''tmp'') ''tmp'') = Some EACCES
   \<and> Collect' (run [Inc ''FOO'' 10, Finish])
        (faulty_fs ''tmp'', foldl AddCounter (NewCollector ''tmp'') [''FOO''])
      = (Returned (Some EACCES), faulty_fs ''tmp'',
         \<lparr>path = ''tmp'', startedAt = zero_time, finishedAt = zero_time, counters = [(''FOO'', 0)]\<rparr>)
   \<and> files (faulty_fs ''tmp'') = Map.empty
   \<and> writes (faulty_fs ''tmp'') = []"
proof -
  have m: "snd (MkdirAll (faulty_fs ''tmp'')
      (path (foldl AddCounter (NewCollector ''tmp'') [''FOO'']))) = Some EACCES"
    by (simp add: MkdirAll_def faulty_fs_def NewCollector_def)
  show ?thesis
    using Collect_directory_failure [OF m, of "run [Inc ''FOO'' 10, Finish]"] m
    by (simp add: MkdirAll_def faulty_fs_def NewCollector_def AddCounter_def)
qed

subsection \<open>Requests under the upper-cased form of a registered name\<close>

text \<open>
  Claim C4. When a counter is registered under a name \<open>nm\<close> and its upper-cased form is
  not itself registered (so \<open>nm\<close> is not all upper-case), an increment or set request
  under the upper-cased form finds a file name in \<^verbatim>\<open>fC\<close> and no entry in
  \<^verbatim>\<open>counters\<close>: the atomic operation is handed a nil pointer and the loop panics; the
  request is neither discarded nor applied.
\<close>

theorem update_nil_dereference:
  assumes "nm \<in> fst ` set (counters self)"
    and "ToUpper nm \<notin> fst ` set (counters self)"
    and "name u = ToUpper nm"
    and "kind u = CHR ''i'' \<or> kind u = CHR ''s''"
  shows "ToUpper nm \<noteq> nm
       \<and> file_names (path self) (counters self) Map.empty (name u) = Some (Join (path self) (ToUpper nm))
       \<and> map_of (counters self) (name u) = None
       \<and> update (file_names (path self) (counters self) Map.empty) u (fs, self)
           = Inl NilPointerDereference"
proof -
  have 1: "ToUpper nm \<noteq> nm"
    using assms(1,2) by auto
  have 2: "file_names (path self) (counters self) Map.empty (name u) = Some (Join (path self) (ToUpper nm))"
    using assms(1,3) by (simp add: file_names_lookup)
  have 3: "map_of (counters self) (name u) = None"
    using assms(2,3) by (simp add: map_of_eq_None_iff)
  show ?thesis
    using 1 2 3 assms(4) by (auto simp: update_def)
qed

theorem update_nil_dereference_witness:
  "''foo'' \<in> fst ` set (counters (AddCounter (NewCollector ''tmp'') ''foo''))
   \<and> ToUpper ''foo'' = ''FOO''
   \<and> ''FOO'' \<notin> fst ` set (counters (AddCounter (NewCollector ''tmp'') ''foo''))
   \<and> file_names ''tmp'' (counters (AddCounter (NewCollector ''tmp'') ''foo'')) Map.empty ''FOO''
       = Some ''tmp/FOO''
   \<and> update (file_names ''tmp'' (counters (AddCounter (NewCollector ''tmp'') ''foo'')) Map.empty)
        \<lparr>kind = CHR ''i'', name = ''FOO'', op_value = 10\<rparr>
        (empty_fs, AddCounter (NewCollector ''tmp'') ''foo'') = Inl NilPointerDereference"
proof -
  let ?self = "AddCounter (NewCollector ''tmp'') ''foo''"
  let ?u = "\<lparr>kind = CHR ''i'', name = ''FOO'', op_value = 10 :: int64\<rparr>"
  have u: "ToUpper ''foo'' = ''FOO''"
    by (rule ToUpper_examples)
  have j: "Join ''tmp'' ''FOO'' = ''tmp/FOO''"
    by (simp add: Join_def)
  have a: "''foo'' \<in> fst ` set (counters ?self)"
    by (simp add: AddCounter_def NewCollector_def)
  have b: "ToUpper ''foo'' \<notin> fst ` set (counters ?self)"
    by (simp add: u AddCounter_def NewCollector_def)
  have c: "name ?u = ToUpper ''foo''"
    by (simp add: u)
  have d: "kind ?u = CHR ''i'' \<or> kind ?u = CHR ''s''"
    by simp
  show ?thesis
    using update_nil_dereference [OF a b c d, of empty_fs] a b
    by (simp add: u j NewCollector_def)
qed

subsection \<open>Requests that the loop mistreats\<close>

text \<open>
  Claim C2, at an input where it fails. Only \<^verbatim>\<open>foo\<close> is registered; the request
  names \<^verbatim>\<open>FOO\<close>, which was never registered. The request is not discarded:
  \<^verbatim>\<open>Collect\<close> panics with a nil pointer dereference (the deferred function still
  writes \<^verbatim>\<open>FINISHED\<close>).
\<close>

theorem Collect_unregistered_upper_name:
  "map_of (counters (foldl AddCounter (NewCollector ''tmp'') [''foo''])) ''FOO'' = None
   \<and> Collect' (run [Inc ''FOO'' 1, Finish])
        (empty_fs, foldl AddCounter (NewCollector ''tmp'') [''foo''])
      = (Panicked NilPointerDereference,
         \<lparr>files = [''tmp/STARTED'' \<mapsto> RFC3339 t1, ''tmp/FINISHED'' \<mapsto> RFC3339 t2],
          dirs = {''tmp''}, faulty = {},
          writes = [(''tmp/STARTED'', RFC3339 t1), (''tmp/FINISHED'', RFC3339 t2)]\<rparr>,
         \<lparr>path = ''tmp'', startedAt = t1, finishedAt = t2, counters = [(''foo'', 0)]\<rparr>)"
  by (simp add: run_simps)

text \<open>
  Claim C3, at an input where it fails. \<^verbatim>\<open>foo\<close> is registered and incremented by
  10. The request is discarded: the run ends normally, the file \<^verbatim>\<open>tmp/FOO\<close> does not
  exist, the only files written are the two markers, and the counter still holds 0.
\<close>

theorem Collect_lower_case_name_dropped:
  "Collect' (run [Inc ''foo'' 10, Finish])
     (empty_fs, foldl AddCounter (NewCollector ''tmp'') [''foo''])
   = (Returned None,
      \<lparr>files = [''tmp/STARTED'' \<mapsto> RFC3339 t1, ''tmp/FINISHED'' \<mapsto> RFC3339 t2],
       dirs = {''tmp''}, faulty = {},
       writes = [(''tmp/STARTED'', RFC3339 t1), (''tmp/FINISHED'', RFC3339 t2)]\<rparr>,
      \<lparr>path = ''tmp'', startedAt = t1, finishedAt = t2, counters = [(''foo'', 0)]\<rparr>)
   \<and> [''tmp/STARTED'' \<mapsto> RFC3339 t1, ''tmp/FINISHED'' \<mapsto> RFC3339 t2] ''tmp/FOO'' = None"
  by (simp add: run_simps)

subsection \<open>An accepted request for a registered counter\<close>




subsection \<open>The marker files\<close>








end
